theory Spec2Isabelle
  imports Complex_Main "HOL-Library.Sublist" "HOL-Library.Multiset"
begin

section \<open>JavaScript values used by the ranking engine\<close>

text \<open>
  The engine is JavaScript. Its numbers are modelled as real numbers extended with \<open>NaN\<close>:
  rounding of IEEE doubles is abstracted away, but \<open>NaN\<close> is kept, because arithmetic on a
  missing object field (\<open>undefined * 0.15\<close>) produces it and \<open>Math.max\<close>, \<open>Math.min\<close> and the
  comparison operators treat it specially. No division of the engine has a zero divisor, so
  infinities do not arise from finite inputs.
\<close>

datatype jsnum = NaN | Num real

fun jsAdd :: "jsnum \<Rightarrow> jsnum \<Rightarrow> jsnum" where
  "jsAdd (Num a) (Num b) = Num (a + b)"
| "jsAdd _ _ = NaN"

fun jsSub :: "jsnum \<Rightarrow> jsnum \<Rightarrow> jsnum" where
  "jsSub (Num a) (Num b) = Num (a - b)"
| "jsSub _ _ = NaN"

fun jsMul :: "jsnum \<Rightarrow> jsnum \<Rightarrow> jsnum" where
  "jsMul (Num a) (Num b) = Num (a * b)"
| "jsMul _ _ = NaN"

text \<open>\<open>Math.max\<close> and \<open>Math.min\<close> return \<open>NaN\<close> as soon as one argument is \<open>NaN\<close>.\<close>

fun mathMax :: "jsnum \<Rightarrow> jsnum \<Rightarrow> jsnum" where
  "mathMax (Num a) (Num b) = Num (max a b)"
| "mathMax _ _ = NaN"

fun mathMin :: "jsnum \<Rightarrow> jsnum \<Rightarrow> jsnum" where
  "mathMin (Num a) (Num b) = Num (min a b)"
| "mathMin _ _ = NaN"

text \<open>Every comparison with \<open>NaN\<close> is false.\<close>

fun jsGt :: "jsnum \<Rightarrow> jsnum \<Rightarrow> bool" where
  "jsGt (Num a) (Num b) = (a > b)"
| "jsGt _ _ = False"

fun jsGe :: "jsnum \<Rightarrow> jsnum \<Rightarrow> bool" where
  "jsGe (Num a) (Num b) = (a \<ge> b)"
| "jsGe _ _ = False"

text \<open>The real number behind a value that is not \<open>NaN\<close>.\<close>

fun numberOf :: "jsnum \<Rightarrow> real" where
  "numberOf (Num a) = a"
| "numberOf NaN = 0"

text \<open>
  An object field holding a number is optional: \<open>None\<close> is a missing field, which reads as
  \<open>undefined\<close>. (A JSON \<open>null\<close> behaves like \<open>0\<close> in every use the engine makes of a metric and is
  covered by \<open>Some 0\<close>.) \<open>toNumber\<close> is the conversion applied by an arithmetic operator,
  \<open>orElse\<close> is the idiom \<open>field || d\<close>, which replaces \<open>undefined\<close> and \<open>0\<close> by the default, and
  \<open>fieldGt\<close> is \<open>field > x\<close>, false on \<open>undefined\<close>.
\<close>

fun toNumber :: "real option \<Rightarrow> jsnum" where
  "toNumber None = NaN"
| "toNumber (Some x) = Num x"

fun orElse :: "real option \<Rightarrow> real \<Rightarrow> real" where
  "orElse None d = d"
| "orElse (Some x) d = (if x = 0 then d else x)"

fun fieldGt :: "real option \<Rightarrow> real \<Rightarrow> bool" where
  "fieldGt None x = False"
| "fieldGt (Some v) x = (v > x)"

subsection \<open>Strings\<close>

text \<open>
  Strings are lists of characters, restricted to ASCII: \<open>toLowerCase\<close> maps \<open>A\<close>..\<open>Z\<close> to
  \<open>a\<close>..\<open>z\<close>, the regular expression \<open>\s\<close> matches space, tab, line feed, vertical tab, form
  feed and carriage return, and \<open>length\<close> counts characters.
\<close>

definition toLowerChar :: "char \<Rightarrow> char" where
  "toLowerChar c =
     (let n = (of_char c :: nat) in if 65 \<le> n \<and> n \<le> 90 then char_of (n + 32) else c)"

definition toUpperChar :: "char \<Rightarrow> char" where
  "toUpperChar c =
     (let n = (of_char c :: nat) in if 97 \<le> n \<and> n \<le> 122 then char_of (n - 32) else c)"

definition toLowerCase :: "string \<Rightarrow> string" where
  "toLowerCase s = map toLowerChar s"

definition isSpace :: "char \<Rightarrow> bool" where
  "isSpace c = (let n = (of_char c :: nat) in n = 32 \<or> (9 \<le> n \<and> n \<le> 13))"

text \<open>
  \<open>s.split(/\s+/)\<close>: the pieces between maximal runs of white space, in order; a string that
  starts or ends with white space yields an empty first or last piece, and the empty string
  yields one empty piece. \<open>inRun\<close> tells that the previous character was white space, \<open>cur\<close>
  is the piece read so far, reversed.
\<close>

fun splitWs :: "bool \<Rightarrow> string \<Rightarrow> string \<Rightarrow> string list" where
  "splitWs inRun cur [] = [rev cur]"
| "splitWs inRun cur (c # cs) =
     (if isSpace c then
        (if inRun then splitWs True cur cs else rev cur # splitWs True [] cs)
      else splitWs False (c # cur) cs)"

definition splitSpaces :: "string \<Rightarrow> string list" where
  "splitSpaces s = splitWs False [] s"

text \<open>\<open>s.includes(t)\<close>: \<open>t\<close> occurs in \<open>s\<close> as a contiguous substring.\<close>

fun strIncludes :: "string \<Rightarrow> string \<Rightarrow> bool" where
  "strIncludes [] t = (t = [])"
| "strIncludes (c # s) t = (prefix t (c # s) \<or> strIncludes s t)"

text \<open>\<open>xs.some(p)\<close> is \<open>list_ex p xs\<close>; \<open>xs.filter(p)\<close> is \<open>filter p xs\<close>; \<open>xs.slice(0, n)\<close> is
  \<open>take n xs\<close>.\<close>

section \<open>Data model\<close>

text \<open>
  A candidate is a plain object; every field the engine reads through a guard or a default
  (\<open>result.category || ''\<close>, \<open>result.tags || []\<close>, \<open>result.relevance || 0\<close>, ...) may be missing.
  The fields the engine never reads (\<open>id\<close>, \<open>url\<close>, \<open>summary\<close>) are left out; the title tells
  results apart.
\<close>

record candidate =
  title :: string
  category :: "string option"
  tags :: "string list option"
  relevance :: "real option"
  simplicity :: "real option"
  price :: "real option"
  reviews :: "real option"
  citations :: "real option"
  depth :: "real option"
  recency :: "real option"
  readingTime :: "real option"

section \<open>Keyword extraction and the query-intent filter\<close>

definition extractKeywords :: "string \<Rightarrow> string list" where
  "extractKeywords query =
     take 5 (filter (\<lambda>word. length word > 3) (splitSpaces (toLowerCase query)))"

text \<open>The tag list built for one result: category (default \<open>''\<close>) first, then the tags
  (default \<open>[]\<close>), all in lower case.\<close>

definition resultTags :: "candidate \<Rightarrow> string list" where
  "resultTags result =
     map toLowerCase
       ((case category result of None \<Rightarrow> [] | Some c \<Rightarrow> c)
        # (case tags result of None \<Rightarrow> [] | Some ts \<Rightarrow> ts))"

definition matchesIntent :: "string list \<Rightarrow> candidate \<Rightarrow> bool" where
  "matchesIntent keywords result =
     list_ex (\<lambda>keyword.
        list_ex (\<lambda>tag. strIncludes tag keyword \<or> strIncludes keyword tag) (resultTags result))
       keywords"

definition filterByQueryIntent :: "candidate list \<Rightarrow> string \<Rightarrow> candidate list" where
  "filterByQueryIntent results query =
     (let keywords = extractKeywords query
      in if length keywords = 0 then results
         else filter (matchesIntent keywords) results)"

section \<open>Profiles and constraints\<close>

text \<open>
  \<open>profileWeights\<close> is an object literal keyed by profile name; each weight vector is kept
  in the order of \<open>Object.entries\<close>, the order of the literal. The lookup
  \<open>profileWeights[profile]\<close> also finds the names the literal inherits from
  \<open>Object.prototype\<close>: there it yields a function (or, for \<open>__proto__\<close>, the prototype object),
  which is truthy, has no enumerable own property, so that \<open>Object.entries\<close> of it is empty,
  and has none of the metric names as a property, so that \<open>weights.simplicity\<close> and the like
  read as \<open>undefined\<close>. Such a value behaves as the empty weight vector. Every other name
  reads as \<open>undefined\<close>, here \<open>None\<close>.
\<close>

type_synonym weights = "(string \<times> real) list"

definition objectPrototypeNames :: "string list" where
  "objectPrototypeNames =
     [''constructor'', ''__defineGetter__'', ''__defineSetter__'', ''hasOwnProperty'',
      ''__lookupGetter__'', ''__lookupSetter__'', ''isPrototypeOf'', ''propertyIsEnumerable'',
      ''toString'', ''valueOf'', ''__proto__'', ''toLocaleString'']"

definition profileWeights :: "string \<Rightarrow> weights option" where
  "profileWeights profile =
     (if profile = ''student'' then Some
        [(''simplicity'', 0.30), (''relevance'', 0.25), (''recency'', 0.15), (''reviews'', 0.15),
         (''depth'', 0.10), (''price'', 0.05), (''citations'', 0.00), (''readingTime'', -0.05)]
      else if profile = ''shopper'' then Some
        [(''price'', 0.35), (''reviews'', 0.30), (''relevance'', 0.20), (''simplicity'', 0.10),
         (''recency'', 0.05), (''depth'', 0.00), (''citations'', 0.00), (''readingTime'', 0.00)]
      else if profile = ''researcher'' then Some
        [(''citations'', 0.35), (''depth'', 0.30), (''relevance'', 0.20), (''reviews'', 0.10),
         (''recency'', 0.05), (''simplicity'', 0.00), (''price'', 0.00), (''readingTime'', 0.00)]
      else if profile = ''casual'' then Some
        [(''relevance'', 0.35), (''recency'', 0.25), (''readingTime'', -0.15), (''simplicity'', 0.20),
         (''reviews'', 0.10), (''price'', 0.05), (''depth'', 0.00), (''citations'', 0.00)]
      else if profile \<in> set objectPrototypeNames then Some []
      else None)"

text \<open>
  The constraints object. \<open>budget\<close> is the truth value of \<open>constraints.budget\<close>.
  \<open>readingTimeLimit\<close> is \<open>constraints.readingTime\<close>, an optional whole number of minutes (the
  GET handler and the browser script store the result of \<open>parseInt\<close> or \<open>null\<close> there), on which
  the engine's own \<open>parseInt\<close> is the identity; \<open>0\<close> is falsy and switches the constraint off.
  \<open>skillLevel\<close> is an optional string; the empty string is falsy and, like every string
  other than the three levels, changes nothing.
\<close>

record constraints =
  budget :: bool
  readingTimeLimit :: "int option"
  skillLevel :: "string option"

definition noConstraints :: constraints where
  "noConstraints = \<lparr>budget = False, readingTimeLimit = None, skillLevel = None\<rparr>"

section \<open>Scoring\<close>

definition getReadingTimeScore :: "real \<Rightarrow> real" where
  "getReadingTimeScore t =
     (let maxTime = 60; minTime = 5
      in if t \<le> minTime then 1.0
         else if t \<ge> maxTime then 0.0
         else 1.0 - ((t - minTime) / (maxTime - minTime)))"

text \<open>The bidirectional containment test of one label (a category or a tag) against the
  keywords: \<open>queryKeywords.some(keyword => label.toLowerCase().includes(keyword) ||
  keyword.includes(label.toLowerCase()))\<close>.\<close>

definition keywordMatch :: "string list \<Rightarrow> string \<Rightarrow> bool" where
  "keywordMatch queryKeywords label =
     list_ex (\<lambda>keyword. strIncludes (toLowerCase label) keyword
                        \<or> strIncludes keyword (toLowerCase label)) queryKeywords"

text \<open>\<open>result.category && ...\<close>: the category is present and not the empty string. An array
  is always truthy, so \<open>result.tags && ...\<close> only asks that the field is present.\<close>

definition computeRelevanceScore :: "candidate \<Rightarrow> string list \<Rightarrow> real" where
  "computeRelevanceScore result queryKeywords =
     (let score = 0; factors = 0;
          score = score + orElse (relevance result) 0 * 0.6;
          factors = factors + 0.6;
          (score, factors) =
            (case category result of
               Some c \<Rightarrow>
                 if c \<noteq> [] \<and> length queryKeywords > 0 then
                   ((if keywordMatch queryKeywords c then score + 0.25 else score),
                    factors + 0.25)
                 else (score, factors)
             | None \<Rightarrow> (score, factors));
          (score, factors) =
            (case tags result of
               Some ts \<Rightarrow>
                 if length queryKeywords > 0 then
                   (let matchingTags = filter (keywordMatch queryKeywords) ts;
                        tagMatchRatio = real (length matchingTags) / real (max 1 (length ts))
                    in (score + tagMatchRatio * 0.15, factors + 0.15))
                 else (score, factors)
             | None \<Rightarrow> (score, factors));
          normalizedScore =
            (if factors > 0 then score / factors else orElse (relevance result) 0)
      in max 0 (min 1 normalizedScore))"

definition applyConstraintAdjustments :: "candidate \<Rightarrow> constraints \<Rightarrow> jsnum" where
  "applyConstraintAdjustments result cs =
     (let maxPenalty = - 0.25; maxBonus = 0.15;
          adjustment = Num 0;
          adjustment =
            (if budget cs then
               (let priceScore = orElse (price result) 0;
                    budgetPenalty = (1 - priceScore) * maxPenalty * 0.8
                in jsAdd adjustment (Num budgetPenalty))
             else adjustment);
          adjustment =
            (case readingTimeLimit cs of
               Some m \<Rightarrow>
                 if m \<noteq> 0 then
                   (let maxReadingTime = real_of_int m;
                        resultReadingTime = orElse (readingTime result) 15;
                        adjustment =
                          (if resultReadingTime \<le> maxReadingTime then
                             jsAdd adjustment (Num (maxBonus * 0.4))
                           else
                             (let overageRatio =
                                    min 1 ((resultReadingTime - maxReadingTime) / maxReadingTime);
                                  readingTimePenalty = overageRatio * maxPenalty * 0.5
                              in jsAdd adjustment (Num readingTimePenalty)))
                    in jsAdd adjustment
                         (jsMul (toNumber (simplicity result)) (Num (maxBonus * 0.15))))
                 else adjustment
             | None \<Rightarrow> adjustment);
          adjustment =
            (case skillLevel cs of
               Some level \<Rightarrow>
                 if level = ''beginner'' then
                   (let adjustment =
                          jsAdd adjustment
                            (jsMul (toNumber (simplicity result)) (Num (maxBonus * 0.6)));
                        advancedPenalty =
                          jsMul (jsMul (toNumber (depth result)) (Num maxPenalty)) (Num 0.5)
                    in jsAdd adjustment advancedPenalty)
                 else if level = ''intermediate'' then
                   (let depthOptimal =
                          (if fieldGt (depth result) 0.3 then toNumber (depth result)
                           else Num 0.3)
                    in jsAdd adjustment (jsMul depthOptimal (Num (maxBonus * 0.2))))
                 else if level = ''advanced'' then
                   (let adjustment =
                          jsAdd adjustment
                            (jsMul (toNumber (depth result)) (Num (maxBonus * 0.4)));
                        adjustment =
                          jsAdd adjustment
                            (jsMul (toNumber (citations result)) (Num (maxBonus * 0.3)));
                        simplePenalty =
                          jsMul (jsMul (jsSub (Num 1) (toNumber (depth result))) (Num maxPenalty))
                            (Num 0.1)
                    in jsAdd adjustment simplePenalty)
                 else adjustment
             | None \<Rightarrow> adjustment)
      in mathMax (Num maxPenalty) (mathMin (Num maxBonus) adjustment))"

text \<open>
  The personalization scorer. \<open>metrics\<close> is the object of the seven personalization metrics
  (every field defaulted with \<open>|| 0\<close>, the reading time normalised). \<open>weightLoop\<close> is the loop
  over \<open>Object.entries(weights)\<close>, which skips \<open>relevance\<close> and every key that \<open>metrics\<close> does
  not have; its state is the pair \<open>(profileScore, totalWeight)\<close>.
  \<open>computePersonalizationScoreW\<close> is the body of the function once the weight vector has been
  looked up. The browser script and the server module share this code and differ only in the
  constraint adjuster they call, so the adjuster is a parameter.
\<close>

definition metrics :: "candidate \<Rightarrow> (string \<times> real) list" where
  "metrics result =
     [(''simplicity'', orElse (simplicity result) 0),
      (''price'', orElse (price result) 0),
      (''reviews'', orElse (reviews result) 0),
      (''citations'', orElse (citations result) 0),
      (''depth'', orElse (depth result) 0),
      (''recency'', orElse (recency result) 0),
      (''readingTime'', getReadingTimeScore (orElse (readingTime result) 15))]"

fun weightLoop :: "(string \<times> real) list \<Rightarrow> weights \<Rightarrow> real \<times> real \<Rightarrow> real \<times> real" where
  "weightLoop ms [] acc = acc"
| "weightLoop ms ((metric, weight) # rest) (profileScore, totalWeight) =
     (case map_of ms metric of
        None \<Rightarrow> weightLoop ms rest (profileScore, totalWeight)
      | Some v \<Rightarrow>
          if metric = ''relevance'' then weightLoop ms rest (profileScore, totalWeight)
          else if weight \<noteq> 0 then
            weightLoop ms rest (profileScore + v * weight, totalWeight + \<bar>weight\<bar>)
          else weightLoop ms rest (profileScore, totalWeight))"

definition computePersonalizationScoreW ::
  "(candidate \<Rightarrow> constraints \<Rightarrow> jsnum) \<Rightarrow> weights \<Rightarrow> candidate \<Rightarrow> constraints \<Rightarrow> jsnum" where
  "computePersonalizationScoreW adjust ws result cs =
     (let (profileScore, totalWeight) = weightLoop (metrics result) ws (0, 0);
          normalizedProfileScore =
            (if totalWeight > 0 then profileScore / totalWeight else 0.5);
          constraintBonus = adjust result cs;
          normalizedProfileScore = jsAdd (Num normalizedProfileScore) constraintBonus
      in mathMax (Num 0) (mathMin (Num 1) normalizedProfileScore))"

definition computePersonalizationScoreBy ::
  "(candidate \<Rightarrow> constraints \<Rightarrow> jsnum) \<Rightarrow> candidate \<Rightarrow> string \<Rightarrow> constraints \<Rightarrow> jsnum" where
  "computePersonalizationScoreBy adjust result profile cs =
     (case profileWeights profile of
        None \<Rightarrow> Num 0.5
      | Some ws \<Rightarrow> computePersonalizationScoreW adjust ws result cs)"

definition computePersonalizationScore :: "candidate \<Rightarrow> string \<Rightarrow> constraints \<Rightarrow> jsnum" where
  "computePersonalizationScore = computePersonalizationScoreBy applyConstraintAdjustments"

text \<open>The combination \<open>(0.7 * relevanceScore) + (0.3 * personalizationScore)\<close>.\<close>

definition finalScore :: "real \<Rightarrow> jsnum \<Rightarrow> jsnum" where
  "finalScore relevanceScore personalizationScore =
     jsAdd (Num (0.7 * relevanceScore)) (jsMul (Num 0.3) personalizationScore)"

text \<open>\<open>scoreResult\<close> takes a context object whose three fields are all optional.\<close>

record scoreContext =
  queryKeywords :: "string list option"
  ctxQuery :: "string option"
  ctxConstraints :: "constraints option"

definition scoreResult :: "candidate \<Rightarrow> string \<Rightarrow> scoreContext \<Rightarrow> jsnum" where
  "scoreResult result profile ctx =
     (let kws = (case queryKeywords ctx of
                   Some ks \<Rightarrow> ks
                 | None \<Rightarrow> extractKeywords (case ctxQuery ctx of Some q \<Rightarrow> q | None \<Rightarrow> []));
          cs = (case ctxConstraints ctx of Some c \<Rightarrow> c | None \<Rightarrow> noConstraints);
          relevanceScore = computeRelevanceScore result kws;
          personalizationScore = computePersonalizationScore result profile cs
      in finalScore relevanceScore personalizationScore)"

section \<open>Explanations\<close>

text \<open>
  Reading a property of \<open>undefined\<close> throws a \<open>TypeError\<close>; this is the only exception the
  engine can raise.
\<close>

datatype error = TypeError

text \<open>
  Each explanation is one template string of the source; the constructor records which
  template it is and the values spliced into it (numbers are kept as numbers rather than
  rendered as decimal text):
  \<^item> \<open>MatchesResultType c\<close>: Matches "c" result type you're looking for;
  \<^item> \<open>MatchesInterests ts more\<close>: Matches your interests: the tags \<open>ts\<close>, with an ellipsis
    when \<open>more\<close>;
  \<^item> \<open>HighlyRelevant n\<close>: Highly relevant to your search (n% match);
  \<^item> \<open>FitsReadingTime m t\<close>: Fits your m-minute reading time limit (t min);
  \<^item> \<open>RespectsBudget\<close>, \<open>BeginnerLevel\<close>, \<open>IntermediateDepth\<close>, \<open>AdvancedDepth\<close>: the four
    constant constraint lines;
  \<^item> \<open>ProfilePreference name fs\<close>: Name preference: the factor texts \<open>fs\<close>;
  \<^item> \<open>RelevantMatch n\<close>: Relevant match (n%); \<open>BestAvailableMatch\<close>: Best available match
    for your search.
\<close>

datatype explanation =
    MatchesResultType string
  | MatchesInterests "string list" bool
  | HighlyRelevant int
  | FitsReadingTime int real
  | RespectsBudget
  | BeginnerLevel
  | IntermediateDepth
  | AdvancedDepth
  | ProfilePreference string "string list"
  | RelevantMatch int
  | BestAvailableMatch

text \<open>\<open>Math.round\<close> rounds to the nearest integer, halves upwards.\<close>

definition mathRound :: "real \<Rightarrow> int" where
  "mathRound x = \<lfloor>x + 1 / 2\<rfloor>"

text \<open>\<open>profile.charAt(0).toUpperCase() + profile.slice(1)\<close>.\<close>

fun capitalize :: "string \<Rightarrow> string" where
  "capitalize [] = []"
| "capitalize (c # cs) = toUpperChar c # cs"

text \<open>\<open>weights.metric > x\<close> for a weight vector that exists.\<close>

definition weightGt :: "weights \<Rightarrow> string \<Rightarrow> real \<Rightarrow> bool" where
  "weightGt ws metric x = fieldGt (map_of ws metric) x"

definition contributingFactors :: "weights \<Rightarrow> candidate \<Rightarrow> string list" where
  "contributingFactors ws result =
     (let scoreContributionThreshold = 0.6
      in (if weightGt ws ''simplicity'' 0.2 \<and> fieldGt (simplicity result) scoreContributionThreshold
          then [''Easy to understand''] else [])
       @ (if weightGt ws ''price'' 0.2 \<and> fieldGt (price result) scoreContributionThreshold
          then [''Affordable''] else [])
       @ (if weightGt ws ''reviews'' 0.2 \<and> fieldGt (reviews result) scoreContributionThreshold
          then [''Highly reviewed''] else [])
       @ (if weightGt ws ''citations'' 0.2 \<and> fieldGt (citations result) scoreContributionThreshold
          then [''Highly cited''] else [])
       @ (if weightGt ws ''depth'' 0.2 \<and> fieldGt (depth result) scoreContributionThreshold
          then [''Comprehensive and detailed''] else [])
       @ (if weightGt ws ''recency'' 0.15 \<and> fieldGt (recency result) scoreContributionThreshold
          then [''Recently updated''] else []))"

text \<open>
  The lines pushed before the fallback, in the order of the source. The weight vector is
  read unguarded (\<open>weights.simplicity\<close>), so a profile whose lookup is \<open>undefined\<close> raises
  \<open>TypeError\<close> before anything is returned.
\<close>

definition specificExplanations ::
  "weights \<Rightarrow> candidate \<Rightarrow> string \<Rightarrow> constraints \<Rightarrow> string list \<Rightarrow> real \<Rightarrow> explanation list" where
  "specificExplanations ws result profile cs kws relevanceScore =
     (let scoreContributionThreshold = 0.6;
          explanations = [];
          explanations =
            (case category result of
               Some c \<Rightarrow>
                 if c \<noteq> [] \<and> length kws > 0 \<and> keywordMatch kws c
                 then explanations @ [MatchesResultType c] else explanations
             | None \<Rightarrow> explanations);
          explanations =
            (case tags result of
               Some ts \<Rightarrow>
                 if length kws > 0 then
                   (let matchingTags = filter (keywordMatch kws) ts
                    in if length matchingTags > 0
                       then explanations
                              @ [MatchesInterests (take 3 matchingTags) (length matchingTags > 3)]
                       else explanations)
                 else explanations
             | None \<Rightarrow> explanations);
          explanations =
            (if relevanceScore \<ge> scoreContributionThreshold
             then explanations @ [HighlyRelevant (mathRound (relevanceScore * 100))]
             else explanations);
          factors = contributingFactors ws result;
          explanations =
            (case readingTimeLimit cs of
               Some m \<Rightarrow>
                 if m \<noteq> 0 then
                   (case readingTime result of
                      Some t \<Rightarrow>
                        if t \<noteq> 0 \<and> t \<le> real_of_int m
                        then explanations @ [FitsReadingTime m t] else explanations
                    | None \<Rightarrow> explanations)
                 else explanations
             | None \<Rightarrow> explanations);
          explanations =
            (if budget cs \<and> fieldGt (price result) scoreContributionThreshold
             then explanations @ [RespectsBudget] else explanations);
          explanations =
            (case skillLevel cs of
               Some level \<Rightarrow>
                 if level = ''beginner'' \<and> fieldGt (simplicity result) scoreContributionThreshold
                 then explanations @ [BeginnerLevel]
                 else if level = ''intermediate'' \<and> fieldGt (depth result) 0.4
                 then explanations @ [IntermediateDepth]
                 else if level = ''advanced'' \<and> fieldGt (depth result) scoreContributionThreshold
                 then explanations @ [AdvancedDepth]
                 else explanations
             | None \<Rightarrow> explanations);
          explanations =
            (if length factors > 0
             then explanations @ [ProfilePreference (capitalize profile) (take 2 factors)]
             else explanations)
      in explanations)"

definition generateExplanations ::
  "candidate \<Rightarrow> string \<Rightarrow> constraints \<Rightarrow> string list \<Rightarrow> real \<Rightarrow> jsnum
     \<Rightarrow> error + explanation list" where
  "generateExplanations result profile cs kws relevanceScore personalizationScore =
     (case profileWeights profile of
        None \<Rightarrow> Inl TypeError
      | Some ws \<Rightarrow>
          (let explanations = specificExplanations ws result profile cs kws relevanceScore
           in if length explanations = 0 then
                (if relevanceScore \<ge> 0.5
                 then Inr [RelevantMatch (mathRound (relevanceScore * 100))]
                 else Inr [BestAvailableMatch])
              else Inr explanations))"

section \<open>The ranking pipeline\<close>

text \<open>A ranked result is the candidate (the spread \<open>...result\<close>, kept as \<open>item\<close>) with its
  final score, the profile and the explanations.\<close>

record rankedResult =
  item :: candidate
  score :: jsnum
  rankedFor :: string
  explanations :: "explanation list"

text \<open>
  \<open>Array.prototype.sort\<close> with a comparison function is stable. A positive result of
  \<open>cmp x y\<close> places \<open>x\<close> after \<open>y\<close>; a \<open>NaN\<close> result counts as \<open>0\<close>. It is modelled by a stable
  insertion sort: on a consistent comparison function every stable sort returns the same
  array.
\<close>

fun insertSorted :: "('a \<Rightarrow> 'a \<Rightarrow> jsnum) \<Rightarrow> 'a \<Rightarrow> 'a list \<Rightarrow> 'a list" where
  "insertSorted cmp x [] = [x]"
| "insertSorted cmp x (y # ys) =
     (if jsGt (cmp x y) (Num 0) then y # insertSorted cmp x ys else x # y # ys)"

definition arraySort :: "('a \<Rightarrow> 'a \<Rightarrow> jsnum) \<Rightarrow> 'a list \<Rightarrow> 'a list" where
  "arraySort cmp xs = foldr (insertSorted cmp) xs []"

text \<open>The comparison function \<open>(a, b) => b.score - a.score\<close>.\<close>

definition byScore :: "rankedResult \<Rightarrow> rankedResult \<Rightarrow> jsnum" where
  "byScore a b = jsSub (score b) (score a)"

text \<open>\<open>xs.map(f)\<close> for a callback that may throw: the first exception ends the call.\<close>

fun mapThrowing :: "('a \<Rightarrow> error + 'b) \<Rightarrow> 'a list \<Rightarrow> error + 'b list" where
  "mapThrowing f [] = Inr []"
| "mapThrowing f (x # xs) =
     (case f x of
        Inl e \<Rightarrow> Inl e
      | Inr y \<Rightarrow> (case mapThrowing f xs of Inl e \<Rightarrow> Inl e | Inr ys \<Rightarrow> Inr (y # ys)))"

text \<open>The callback of the \<open>map\<close> in step 3, the same text in both pipelines up to the
  constraint adjuster behind \<open>computePersonalizationScore\<close>.\<close>

definition scoreOneBy ::
  "(candidate \<Rightarrow> constraints \<Rightarrow> jsnum) \<Rightarrow> string \<Rightarrow> constraints \<Rightarrow> string list \<Rightarrow> candidate
     \<Rightarrow> error + rankedResult" where
  "scoreOneBy adjust profile cs kws result =
     (let relevanceScore = computeRelevanceScore result kws;
          personalizationScore = computePersonalizationScoreBy adjust result profile cs;
          final = finalScore relevanceScore personalizationScore
      in case generateExplanations result profile cs kws relevanceScore personalizationScore of
           Inl e \<Rightarrow> Inl e
         | Inr ex \<Rightarrow>
             Inr \<lparr>item = result, score = final, rankedFor = profile, explanations = ex\<rparr>)"

text \<open>The request of the server module: \<open>profile\<close> defaults to \<open>'casual'\<close>, \<open>constraints\<close> to
  the empty object, \<open>results\<close> to the empty array.\<close>

record request =
  reqQuery :: string
  reqProfile :: "string option"
  reqConstraints :: "constraints option"
  reqResults :: "candidate list"

definition profileOf :: "request \<Rightarrow> string" where
  "profileOf request = (case reqProfile request of Some p \<Rightarrow> p | None \<Rightarrow> ''casual'')"

definition constraintsOf :: "request \<Rightarrow> constraints" where
  "constraintsOf request =
     (case reqConstraints request of Some c \<Rightarrow> c | None \<Rightarrow> noConstraints)"

definition scoredResults ::
  "string \<Rightarrow> constraints \<Rightarrow> string \<Rightarrow> candidate list \<Rightarrow> error + rankedResult list" where
  "scoredResults profile cs query intentFilteredResults =
     mapThrowing (scoreOneBy applyConstraintAdjustments profile cs (extractKeywords query))
       intentFilteredResults"

definition rankResults :: "request \<Rightarrow> error + rankedResult list" where
  "rankResults request =
     (let query = reqQuery request;
          profile = profileOf request;
          cs = constraintsOf request;
          results = reqResults request
      in if length results = 0 then Inr []
         else
           (let intentFilteredResults = filterByQueryIntent results query
            in if length intentFilteredResults = 0 then Inr []
               else
                 (case scoredResults profile cs query intentFilteredResults of
                    Inl e \<Rightarrow> Inl e
                  | Inr scored \<Rightarrow> Inr (arraySort byScore scored))))"

subsection \<open>The browser pipeline\<close>

text \<open>
  The browser script carries its own copy of the engine. Its functions are the ones above,
  except for the constraint adjuster, which is symmetric (\<open>\<plusminus>0.15\<close>) and defaults no
  metric, and for the pipeline, \<open>rankAndDisplayResults\<close>, which keeps the top three results
  and hands them to \<open>displayResults\<close> (or shows the empty state).
\<close>

definition applyConstraintAdjustmentsUI :: "candidate \<Rightarrow> constraints \<Rightarrow> jsnum" where
  "applyConstraintAdjustmentsUI result cs =
     (let maxAdjustment = 0.15;
          adjustment = Num 0;
          adjustment =
            (if budget cs
             then jsAdd adjustment (jsMul (toNumber (price result)) (Num (maxAdjustment * 0.4)))
             else adjustment);
          adjustment =
            (case readingTimeLimit cs of
               Some m \<Rightarrow>
                 if m \<noteq> 0 then
                   (let maxReadingTime = real_of_int m;
                        resultReadingTime = orElse (readingTime result) 15;
                        adjustment =
                          (if resultReadingTime \<le> maxReadingTime
                           then jsAdd adjustment (Num (maxAdjustment * 0.3))
                           else jsSub adjustment (Num (maxAdjustment * 0.2)))
                    in jsAdd adjustment
                         (jsMul (toNumber (simplicity result)) (Num (maxAdjustment * 0.1))))
                 else adjustment
             | None \<Rightarrow> adjustment);
          adjustment =
            (case skillLevel cs of
               Some level \<Rightarrow>
                 if level = ''beginner'' then
                   (let adjustment =
                          jsAdd adjustment
                            (jsMul (toNumber (simplicity result)) (Num (maxAdjustment * 0.5)))
                    in jsSub adjustment
                         (jsMul (toNumber (depth result)) (Num (maxAdjustment * 0.1))))
                 else if level = ''intermediate'' then
                   jsAdd adjustment (jsMul (toNumber (depth result)) (Num (maxAdjustment * 0.15)))
                 else if level = ''advanced'' then
                   (let adjustment =
                          jsAdd adjustment
                            (jsMul (toNumber (depth result)) (Num (maxAdjustment * 0.3)));
                        adjustment =
                          jsAdd adjustment
                            (jsMul (toNumber (citations result)) (Num (maxAdjustment * 0.2)))
                    in jsSub adjustment
                         (jsMul (toNumber (simplicity result)) (Num (maxAdjustment * 0.05))))
                 else adjustment
             | None \<Rightarrow> adjustment)
      in mathMax (Num (- maxAdjustment)) (mathMin (Num maxAdjustment) adjustment))"

text \<open>What \<open>rankAndDisplayResults\<close> leaves on the page.\<close>

datatype display = EmptyState | Displayed "rankedResult list"

record searchContext =
  scResults :: "candidate list"
  scProfile :: string
  scConstraints :: constraints
  scQuery :: string

text \<open>\<open>displayResults\<close> renders at most five cards.\<close>

definition displayResults :: "rankedResult list \<Rightarrow> display" where
  "displayResults rankedResults = Displayed (take 5 rankedResults)"

definition rankAndDisplayResults :: "searchContext \<Rightarrow> error + display" where
  "rankAndDisplayResults sc =
     (let intentFilteredResults = filterByQueryIntent (scResults sc) (scQuery sc)
      in if length intentFilteredResults = 0 then Inr EmptyState
         else
           (let kws = extractKeywords (scQuery sc)
            in case mapThrowing
                      (scoreOneBy applyConstraintAdjustmentsUI (scProfile sc) (scConstraints sc) kws)
                      intentFilteredResults of
                 Inl e \<Rightarrow> Inl e
               | Inr scored \<Rightarrow>
                   (let allRankedResults = arraySort byScore scored;
                        topResults = take 3 allRankedResults
                    in if length topResults = 0 then Inr EmptyState
                       else Inr (displayResults topResults))))"

text \<open>A list of ranked results is in descending order of score when \<open>a.score >= b.score\<close>
  holds for every \<open>a\<close> that stands before a \<open>b\<close>.\<close>

definition descending :: "rankedResult list \<Rightarrow> bool" where
  "descending xs = sorted_wrt (\<lambda>a b. jsGe (score a) (score b)) xs"

subsection \<open>Sample data\<close>

text \<open>The fallback result of \<open>getDefaultResults\<close>, used when the data file cannot be read.\<close>

definition defaultResult :: candidate where
  "defaultResult =
     \<lparr>title = ''Comprehensive Guide to Machine Learning'',
      category = Some ''course'',
      tags = Some [''machine learning'', ''course'', ''tutorial'', ''learning''],
      relevance = Some 0.95, simplicity = Some 0.85, price = Some 0.3, reviews = Some 0.92,
      citations = Some 0.7, depth = Some 0.88, recency = Some 0.75, readingTime = Some 20\<rparr>"

text \<open>The fallback result with a lower relevance, a result without a \<open>simplicity\<close> field,
  and a reading-time ceiling of thirty minutes.\<close>

definition lessRelevant :: candidate where
  "lessRelevant = defaultResult\<lparr>title := ''Less relevant'', relevance := Some 0.5\<rparr>"

definition noSimplicity :: candidate where
  "noSimplicity = defaultResult\<lparr>title := ''No simplicity'', simplicity := None\<rparr>"

definition thirtyMinutes :: constraints where
  "thirtyMinutes = \<lparr>budget = False, readingTimeLimit = Some 30, skillLevel = None\<rparr>"

definition budgetOnly :: constraints where
  "budgetOnly = \<lparr>budget = True, readingTimeLimit = None, skillLevel = None\<rparr>"

text \<open>A request whose second candidate lacks the \<open>simplicity\<close> field, under that ceiling.\<close>

definition mixedRequest :: request where
  "mixedRequest =
     \<lparr>reqQuery = ''machine learning'', reqProfile = Some ''casual'',
      reqConstraints = Some thirtyMinutes,
      reqResults = [lessRelevant, noSimplicity, defaultResult]\<rparr>"

definition noSimplicityRequest :: request where
  "noSimplicityRequest =
     \<lparr>reqQuery = ''machine learning'', reqProfile = Some ''casual'',
      reqConstraints = Some thirtyMinutes, reqResults = [noSimplicity]\<rparr>"

text \<open>Six copies of the fallback result, which all survive the intent filter of the query
  \<open>machine learning\<close>, as a server request and as a browser search.\<close>

definition sixRequest :: request where
  "sixRequest =
     \<lparr>reqQuery = ''machine learning'', reqProfile = Some ''student'', reqConstraints = None,
      reqResults = replicate 6 defaultResult\<rparr>"

definition sixSearch :: searchContext where
  "sixSearch =
     \<lparr>scResults = replicate 6 defaultResult, scProfile = ''student'',
      scConstraints = noConstraints, scQuery = ''machine learning''\<rparr>"

text \<open>A request for the single fallback result.\<close>

definition oneRequest :: request where
  "oneRequest =
     \<lparr>reqQuery = ''machine learning'', reqProfile = None, reqConstraints = None,
      reqResults = [defaultResult]\<rparr>"

text \<open>The ranked result the server module returns for it.\<close>

definition oneRanked :: rankedResult where
  "oneRanked =
     \<lparr>item = defaultResult, score = Num (65303 / 110000), rankedFor = ''casual'',
      explanations =
        [MatchesInterests [''machine learning'', ''learning''] False, HighlyRelevant 65,
         ProfilePreference ''Casual'' [''Recently updated'']]\<rparr>"

section \<open>Keyword extraction and the intent filter: properties\<close>

text \<open>\<open>strIncludes\<close> is the contiguous-sublist relation of the list library.\<close>

lemma strIncludes_iff_sublist: "strIncludes s t \<longleftrightarrow> sublist t s"
proof (induction s)
  case Nil
  show ?case by simp
next
  case (Cons c s)
  show ?case
    unfolding strIncludes.simps Cons.IH sublist_Cons_right ..
qed

text \<open>At most five keywords are extracted, each longer than three characters.\<close>

lemma extractKeywords_props:
  "length (extractKeywords query) \<le> 5 \<and> (\<forall>w\<in>set (extractKeywords query). length w > 3)"
  by (auto simp: extractKeywords_def dest: in_set_takeD)

lemma strIncludes_empty: "strIncludes s []"
  by (cases s) simp_all

lemma toLowerCase_Nil: "toLowerCase [] = []"
  by (simp add: toLowerCase_def)

lemma resultTags_no_category:
  "category r = None \<or> category r = Some [] \<Longrightarrow> [] \<in> set (resultTags r)"
  by (auto simp: resultTags_def toLowerCase_Nil)

lemma matchesIntent_empty_tag:
  assumes "[] \<in> set (resultTags r)" and "kws \<noteq> []"
  shows "matchesIntent kws r"
proof -
  from assms(2) obtain k ks where "kws = k # ks" by (cases kws) auto
  moreover have "list_ex (\<lambda>tag. strIncludes tag k \<or> strIncludes k tag) (resultTags r)"
    unfolding list_ex_iff using assms(1) strIncludes_empty by blast
  ultimately show ?thesis by (simp add: matchesIntent_def)
qed

lemma extractKeywords_short:
  assumes "\<forall>w\<in>set (splitSpaces (toLowerCase query)). length w \<le> 3"
  shows "extractKeywords query = []"
proof -
  have "filter (\<lambda>word. length word > 3) (splitSpaces (toLowerCase query)) = []"
    using assms by (auto simp: filter_empty_conv)
  then show ?thesis by (simp add: extractKeywords_def)
qed

lemma splitSpaces_a_to: "splitSpaces (toLowerCase ''a to'') = [''a'', ''to'']"
  by code_simp

lemma extractKeywords_machine_learning:
  "extractKeywords ''machine learning'' = [''machine'', ''learning'']"
  by code_simp

text \<open>
  Claim C7. A query whose keyword sequence is empty leaves the candidate list unchanged:
  every candidate is admitted, in the original order. This is the case in particular when
  every white-space separated token of the query has at most three characters.
\<close>

theorem filterByQueryIntent_no_keywords:
  "(extractKeywords query = [] \<longrightarrow> filterByQueryIntent results query = results)
   \<and> ((\<forall>w\<in>set (splitSpaces (toLowerCase query)). length w \<le> 3)
        \<longrightarrow> extractKeywords query = [] \<and> filterByQueryIntent results query = results)"
  using extractKeywords_short [of query] by (auto simp: filterByQueryIntent_def Let_def)

theorem filterByQueryIntent_no_keywords_witness:
  "extractKeywords ''a to'' = []
   \<and> splitSpaces (toLowerCase ''a to'') = [''a'', ''to'']
   \<and> filterByQueryIntent [defaultResult, defaultResult\<lparr>category := None\<rparr>] ''a to''
       = [defaultResult, defaultResult\<lparr>category := None\<rparr>]"
proof -
  have h: "\<forall>w\<in>set (splitSpaces (toLowerCase ''a to'')). length w \<le> 3"
    by (simp add: splitSpaces_a_to)
  from filterByQueryIntent_no_keywords
         [of "''a to''" "[defaultResult, defaultResult\<lparr>category := None\<rparr>]"] h
  show ?thesis by (simp add: splitSpaces_a_to)
qed

text \<open>
  Claim C10. When the keyword sequence is not empty, a candidate whose category is missing
  or is the empty string is admitted by the filter whatever its tags are: its tag list
  contains the empty string, which every keyword includes.
\<close>

theorem filterByQueryIntent_admits_empty_category:
  assumes "extractKeywords query \<noteq> []"
    and "category r = None \<or> category r = Some []"
  shows "matchesIntent (extractKeywords query) r
         \<and> (r \<in> set results \<longrightarrow> r \<in> set (filterByQueryIntent results query))
         \<and> filterByQueryIntent [r] query = [r]"
proof -
  have m: "matchesIntent (extractKeywords query) r"
    using assms resultTags_no_category matchesIntent_empty_tag by blast
  then show ?thesis using assms(1) by (simp add: filterByQueryIntent_def Let_def)
qed

theorem filterByQueryIntent_admits_empty_category_witness:
  "extractKeywords ''machine learning'' \<noteq> []
   \<and> category (defaultResult\<lparr>category := None, tags := Some [''cooking'']\<rparr>) = None
   \<and> filterByQueryIntent [defaultResult\<lparr>category := None, tags := Some [''cooking'']\<rparr>]
        ''machine learning''
       = [defaultResult\<lparr>category := None, tags := Some [''cooking'']\<rparr>]"
proof -
  have k: "extractKeywords ''machine learning'' \<noteq> []"
    by (simp add: extractKeywords_machine_learning)
  have c: "category (defaultResult\<lparr>category := None, tags := Some [''cooking'']\<rparr>) = None
           \<or> category (defaultResult\<lparr>category := None, tags := Some [''cooking'']\<rparr>) = Some []"
    by simp
  from filterByQueryIntent_admits_empty_category [OF k c] k show ?thesis by simp
qed

section \<open>The reading-time normaliser: properties\<close>

text \<open>
  Claim C8. The reading-time score is 1 up to five minutes, 0 from sixty minutes on and the
  linear interpolation \<open>1 - (t - 5) / (60 - 5)\<close> in between, so that it is 1 at 5, 0 at 60
  and one half at 32.5; and it never increases: \<open>t1 < t2\<close> gives a score at \<open>t1\<close> that is at
  least the score at \<open>t2\<close>.
\<close>

theorem getReadingTimeScore_piecewise_antimono:
  "(t \<le> 5 \<longrightarrow> getReadingTimeScore t = 1)
   \<and> (u \<ge> 60 \<longrightarrow> getReadingTimeScore u = 0)
   \<and> (5 < v \<and> v < 60 \<longrightarrow> getReadingTimeScore v = 1 - (v - 5) / (60 - 5))
   \<and> getReadingTimeScore 5 = 1 \<and> getReadingTimeScore 60 = 0 \<and> getReadingTimeScore 32.5 = 0.5
   \<and> (t1 < t2 \<longrightarrow> getReadingTimeScore t1 \<ge> getReadingTimeScore t2)"
proof -
  have mono: "getReadingTimeScore t1 \<ge> getReadingTimeScore t2" if "t1 < t2"
    using that by (auto simp: getReadingTimeScore_def Let_def field_simps)
  show ?thesis using mono by (auto simp: getReadingTimeScore_def Let_def)
qed

theorem getReadingTimeScore_piecewise_antimono_witness:
  "(3::real) \<le> 5 \<and> getReadingTimeScore 3 = 1
   \<and> (70::real) \<ge> 60 \<and> getReadingTimeScore 70 = 0
   \<and> (5::real) < 16 \<and> (16::real) < 60 \<and> getReadingTimeScore 16 = 1 - (16 - 5) / (60 - 5)
   \<and> (10::real) < 20 \<and> getReadingTimeScore 10 \<ge> getReadingTimeScore 20"
  using getReadingTimeScore_piecewise_antimono [of 3 70 16 10 20] by simp

section \<open>The ranking pipeline: properties\<close>

lemma mapThrowing_Inr:
  "mapThrowing f xs = Inr ys \<Longrightarrow> list_all2 (\<lambda>x y. f x = Inr y) xs ys"
  by (induction xs arbitrary: ys) (auto split: sum.splits)

lemma mapThrowing_total:
  "(\<And>x. x \<in> set xs \<Longrightarrow> \<exists>y. f x = Inr y) \<Longrightarrow> \<exists>ys. mapThrowing f xs = Inr ys"
proof (induction xs)
  case Nil
  show ?case by simp
next
  case (Cons x xs)
  then obtain y ys where "f x = Inr y" "mapThrowing f xs = Inr ys"
    by (meson list.set_intros)
  then show ?case by simp
qed

lemma length_insertSorted: "length (insertSorted cmp x ys) = Suc (length ys)"
  by (induction ys) auto

lemma set_insertSorted: "set (insertSorted cmp x ys) = insert x (set ys)"
  by (induction ys) auto

lemma length_arraySort: "length (arraySort cmp xs) = length xs"
  by (induction xs) (auto simp: arraySort_def length_insertSorted)

lemma set_arraySort: "set (arraySort cmp xs) = set xs"
  by (induction xs) (auto simp: arraySort_def set_insertSorted)

lemma mset_insertSorted: "mset (insertSorted cmp x ys) = add_mset x (mset ys)"
  by (induction ys) auto

lemma mset_arraySort: "mset (arraySort cmp xs) = mset xs"
  by (induction xs) (auto simp: arraySort_def mset_insertSorted)

lemma generateExplanations_known:
  assumes "profileWeights profile = Some ws"
  shows "generateExplanations r profile cs kws rel pers =
           Inr (if specificExplanations ws r profile cs kws rel = []
                then [if rel \<ge> 0.5 then RelevantMatch (mathRound (rel * 100))
                      else BestAvailableMatch]
                else specificExplanations ws r profile cs kws rel)"
  using assms by (simp add: generateExplanations_def Let_def)

lemma scoreOneBy_Inr:
  assumes "scoreOneBy adjust profile cs kws r = Inr x"
  shows "item x = r"
    and "score x = finalScore (computeRelevanceScore r kws)
                     (computePersonalizationScoreBy adjust r profile cs)"
  using assms by (auto simp: scoreOneBy_def Let_def split: sum.splits)

lemma scoreOneBy_known:
  assumes "profileWeights profile = Some ws"
  shows "\<exists>x. scoreOneBy adjust profile cs kws r = Inr x"
  using generateExplanations_known [OF assms] by (simp add: scoreOneBy_def Let_def)

lemma profileWeights_known:
  "profile \<in> {''student'', ''shopper'', ''researcher'', ''casual''}
     \<Longrightarrow> \<exists>ws. profileWeights profile = Some ws"
  by (auto simp: profileWeights_def)

lemma rankResults_Inr:
  assumes "rankResults request = Inr out"
  shows "\<exists>scored. scoredResults (profileOf request) (constraintsOf request) (reqQuery request)
                    (filterByQueryIntent (reqResults request) (reqQuery request)) = Inr scored
                \<and> out = arraySort byScore scored"
proof (cases "filterByQueryIntent (reqResults request) (reqQuery request) = []")
  case True
  then have "out = []"
    using assms by (auto simp: rankResults_def Let_def split: if_splits)
  with True show ?thesis by (simp add: scoredResults_def arraySort_def)
next
  case False
  then have "reqResults request \<noteq> []"
    by (auto simp: filterByQueryIntent_def Let_def)
  with False assms show ?thesis
    by (auto simp: rankResults_def Let_def split: sum.splits)
qed

lemma rankResults_known:
  assumes "profileWeights (profileOf request) = Some ws"
  shows "\<exists>out. rankResults request = Inr out"
proof -
  have "\<exists>scored. scoredResults (profileOf request) (constraintsOf request) (reqQuery request)
                    (filterByQueryIntent (reqResults request) (reqQuery request)) = Inr scored"
    unfolding scoredResults_def
    by (rule mapThrowing_total) (rule scoreOneBy_known [OF assms])
  then show ?thesis
    by (auto simp: rankResults_def Let_def)
qed

lemma scoredResults_Inr:
  assumes "scoredResults profile cs query rs = Inr scored"
  shows "list_all2 (\<lambda>r x. item x = r
            \<and> score x = finalScore (computeRelevanceScore r (extractKeywords query))
                          (computePersonalizationScore r profile cs)) rs scored"
proof -
  have "list_all2 (\<lambda>r x. scoreOneBy applyConstraintAdjustments profile cs
                            (extractKeywords query) r = Inr x) rs scored"
    using assms unfolding scoredResults_def by (rule mapThrowing_Inr)
  then show ?thesis
    by (rule list_all2_mono) (auto dest: scoreOneBy_Inr simp: computePersonalizationScore_def)
qed

lemma rankResults_survivor_count:
  assumes "rankResults request = Inr out"
  shows "length out = length (filterByQueryIntent (reqResults request) (reqQuery request))"
proof -
  from rankResults_Inr [OF assms] obtain scored where
    s: "scoredResults (profileOf request) (constraintsOf request) (reqQuery request)
          (filterByQueryIntent (reqResults request) (reqQuery request)) = Inr scored"
    and o: "out = arraySort byScore scored" by blast
  from scoredResults_Inr [OF s] have "length scored
      = length (filterByQueryIntent (reqResults request) (reqQuery request))"
    by (simp add: list_all2_lengthD)
  with o show ?thesis by (simp add: length_arraySort)
qed

lemma rankResults_elem:
  assumes "rankResults request = Inr out" and "x \<in> set out"
  shows "item x \<in> set (filterByQueryIntent (reqResults request) (reqQuery request))"
    and "score x = finalScore (computeRelevanceScore (item x) (extractKeywords (reqQuery request)))
           (computePersonalizationScore (item x) (profileOf request) (constraintsOf request))"
proof -
  from rankResults_Inr [OF assms(1)] obtain scored where
    s: "scoredResults (profileOf request) (constraintsOf request) (reqQuery request)
          (filterByQueryIntent (reqResults request) (reqQuery request)) = Inr scored"
    and o: "out = arraySort byScore scored" by blast
  from o assms(2) have "x \<in> set scored" by (simp add: set_arraySort)
  then obtain i where i: "i < length scored" "scored ! i = x"
    by (auto simp: in_set_conv_nth)
  let ?rs = "filterByQueryIntent (reqResults request) (reqQuery request)"
  from scoredResults_Inr [OF s] i have
    a: "i < length ?rs" "item x = ?rs ! i"
    and b: "score x = finalScore (computeRelevanceScore (?rs ! i) (extractKeywords (reqQuery request)))
              (computePersonalizationScore (?rs ! i) (profileOf request) (constraintsOf request))"
    by (auto simp: list_all2_conv_all_nth)
  from a show "item x \<in> set ?rs" by simp
  from a b show "score x = finalScore (computeRelevanceScore (item x) (extractKeywords (reqQuery request)))
              (computePersonalizationScore (item x) (profileOf request) (constraintsOf request))"
    by simp
qed

lemma rankResults_items:
  assumes "rankResults request = Inr out"
  shows "mset (map item out) = mset (filterByQueryIntent (reqResults request) (reqQuery request))"
proof -
  from rankResults_Inr [OF assms(1)] obtain scored where
    s: "scoredResults (profileOf request) (constraintsOf request) (reqQuery request)
          (filterByQueryIntent (reqResults request) (reqQuery request)) = Inr scored"
    and o: "out = arraySort byScore scored" by blast
  from scoredResults_Inr [OF s]
  have "map item scored = filterByQueryIntent (reqResults request) (reqQuery request)"
    by (induction rule: list_all2_induct) simp_all
  moreover from o have "mset (map item out) = mset (map item scored)"
    by (simp add: mset_arraySort)
  ultimately show ?thesis by simp
qed

text \<open>
  Claim C2. The results the pipeline returns are exactly the candidates that survived the
  intent filter, and the score attached to each is 0.7 times its relevance score plus 0.3
  times its personalization score, both computed from that same candidate, the keywords of
  the query, the profile and the constraints; \<open>scoreResult\<close> computes the same value. The
  numbers are reals, so the equation is exact; when the personalization score is a number
  \<open>p\<close>, the final score is the number \<open>0.7 * relevance + 0.3 * p\<close>.
\<close>

theorem rankResults_score_combination:
  assumes "rankResults request = Inr out" and "x \<in> set out"
  shows "mset (map item out) = mset (filterByQueryIntent (reqResults request) (reqQuery request))
       \<and> item x \<in> set (filterByQueryIntent (reqResults request) (reqQuery request))
       \<and> score x =
           jsAdd (Num (0.7 * computeRelevanceScore (item x) (extractKeywords (reqQuery request))))
             (jsMul (Num 0.3)
                (computePersonalizationScore (item x) (profileOf request) (constraintsOf request)))
       \<and> score x = scoreResult (item x) (profileOf request)
                     \<lparr>queryKeywords = Some (extractKeywords (reqQuery request)),
                      ctxQuery = Some (reqQuery request),
                      ctxConstraints = Some (constraintsOf request)\<rparr>
       \<and> (\<forall>p. computePersonalizationScore (item x) (profileOf request) (constraintsOf request)
                = Num p
              \<longrightarrow> score x = Num (0.7 * computeRelevanceScore (item x)
                                           (extractKeywords (reqQuery request)) + 0.3 * p))"
  using rankResults_elem [OF assms] rankResults_items [OF assms(1)]
  by (auto simp: finalScore_def scoreResult_def Let_def)

theorem rankResults_score_combination_witness:
  "rankResults oneRequest = Inr [oneRanked]
   \<and> item oneRanked = defaultResult
   \<and> computeRelevanceScore defaultResult (extractKeywords ''machine learning'') = 129 / 200
   \<and> computePersonalizationScore defaultResult ''casual'' noConstraints = Num (7819 / 16500)
   \<and> score oneRanked = Num (0.7 * (129 / 200) + 0.3 * (7819 / 16500))"
proof -
  have r: "rankResults oneRequest = Inr [oneRanked]"
    by code_simp
  have m: "oneRanked \<in> set [oneRanked]"
    by simp
  have e: "computeRelevanceScore defaultResult (extractKeywords ''machine learning'') = 129 / 200"
    by code_simp
  have q: "computePersonalizationScore defaultResult ''casual'' noConstraints
             = Num (7819 / 16500)"
    by code_simp
  have i: "item oneRanked = defaultResult"
    by (simp add: oneRanked_def)
  have o: "profileOf oneRequest = ''casual''" "constraintsOf oneRequest = noConstraints"
          "reqQuery oneRequest = ''machine learning''"
    by (simp_all add: oneRequest_def profileOf_def constraintsOf_def)
  from rankResults_score_combination [OF r m] r i e q o show ?thesis
    by simp
qed

section \<open>Explanations: properties\<close>

text \<open>
  Claim C9. The profile is one of the four of the closed enumeration; the server rejects
  every other name before the engine runs. For every candidate, each of these profiles,
  every constraints object, keyword sequence and score pair, the explanation generator
  returns a list of at least one explanation: the specific lines when there are any, and
  otherwise a single generic line, which is the relevant-match line when the relevance score
  is at least 0.5 and the best-available line below.
\<close>

theorem generateExplanations_nonempty:
  assumes "profile \<in> {''student'', ''shopper'', ''researcher'', ''casual''}"
  shows "\<exists>ws ex. profileWeights profile = Some ws
           \<and> generateExplanations r profile cs kws rel pers = Inr ex
           \<and> length ex \<ge> 1
           \<and> ex = (if specificExplanations ws r profile cs kws rel = []
                   then [if rel \<ge> 0.5 then RelevantMatch (mathRound (rel * 100))
                         else BestAvailableMatch]
                   else specificExplanations ws r profile cs kws rel)"
proof -
  from profileWeights_known [OF assms] obtain ws where ws: "profileWeights profile = Some ws"
    by blast
  let ?ex = "if specificExplanations ws r profile cs kws rel = []
             then [if rel \<ge> 0.5 then RelevantMatch (mathRound (rel * 100))
                   else BestAvailableMatch]
             else specificExplanations ws r profile cs kws rel"
  have "generateExplanations r profile cs kws rel pers = Inr ?ex"
    by (rule generateExplanations_known [OF ws])
  moreover have "length ?ex \<ge> 1"
    by (cases "specificExplanations ws r profile cs kws rel") simp_all
  ultimately show ?thesis using ws by blast
qed

text \<open>Outside the enumeration, a name whose lookup is \<open>undefined\<close> makes the generator raise,
  and a name inherited from \<open>Object.prototype\<close> gives a list like any weight vector.\<close>

lemma generateExplanations_undefined_weights:
  "profileWeights profile = None
     \<Longrightarrow> generateExplanations r profile cs kws rel pers = Inl TypeError"
  by (simp add: generateExplanations_def)

lemma generateExplanations_defined_weights:
  "profileWeights profile = Some ws
     \<Longrightarrow> \<exists>ex. generateExplanations r profile cs kws rel pers = Inr ex \<and> length ex \<ge> 1"
  by (cases "specificExplanations ws r profile cs kws rel")
     (simp_all add: generateExplanations_known)

lemma generateExplanations_constructor_sample:
  "generateExplanations defaultResult ''constructor'' noConstraints [] 0.4 (Num 0.5)
     = Inr [BestAvailableMatch]"
  by code_simp

lemma generateExplanations_fallback_sample:
  "generateExplanations noSimplicity ''student'' noConstraints [] 0.4 (Num 0.5)
     = Inr [BestAvailableMatch]"
  by code_simp

theorem generateExplanations_nonempty_witness:
  "''student'' \<in> {''student'', ''shopper'', ''researcher'', ''casual''}
   \<and> generateExplanations noSimplicity ''student'' noConstraints [] 0.4 (Num 0.5)
       = Inr [BestAvailableMatch]
   \<and> length [BestAvailableMatch] \<ge> 1"
proof -
  have h: "''student'' \<in> {''student'', ''shopper'', ''researcher'', ''casual''}"
    by simp
  from generateExplanations_nonempty [OF h, of noSimplicity noConstraints "[]" "0.4" "Num 0.5"]
       h generateExplanations_fallback_sample
  show ?thesis by simp
qed

section \<open>Personalization: properties\<close>

lemma weightLoop_totalWeight_nonneg:
  "0 \<le> snd acc \<Longrightarrow> 0 \<le> snd (weightLoop ms ws acc)"
  by (induction ms ws acc rule: weightLoop.induct) (auto split: option.splits)

lemma profileWeights_totalWeight_positive:
  assumes "profile \<in> {''student'', ''shopper'', ''researcher'', ''casual''}"
  shows "\<exists>ws. profileWeights profile = Some ws \<and> 0 < snd (weightLoop (metrics r) ws (0, 0))"
  using assms by (auto simp: profileWeights_def metrics_def)

lemma profileWeights_inherited:
  assumes "profile \<in> set objectPrototypeNames"
  shows "profileWeights profile = Some []"
  using assms by (auto simp: profileWeights_def objectPrototypeNames_def)

lemma profileWeights_None_iff:
  "profileWeights profile = None \<longleftrightarrow>
     profile \<notin> {''student'', ''shopper'', ''researcher'', ''casual''}
     \<and> profile \<notin> set objectPrototypeNames"
  by (simp add: profileWeights_def)

lemma computePersonalizationScore_zero_total:
  assumes "profileWeights profile = Some ws" and "snd (weightLoop (metrics r) ws (0, 0)) = 0"
  shows "computePersonalizationScore r profile cs
           = mathMax (Num 0) (mathMin (Num 1)
               (jsAdd (Num 0.5) (applyConstraintAdjustments r cs)))"
  using assms
  by (auto simp: computePersonalizationScore_def computePersonalizationScoreBy_def
        computePersonalizationScoreW_def Let_def split: prod.splits)

text \<open>
  Claim C4, amended. When the lookup of the profile in the weight table is \<open>undefined\<close>, that
  is when the profile is neither one of the four known profiles nor a name inherited from
  \<open>Object.prototype\<close>, the personalization score is exactly the neutral default 0.5: the
  function returns before the constraint adjuster is consulted. When the lookup yields a
  weight vector whose total absolute weight is zero, as it does for each inherited name
  (\<open>constructor\<close>, \<open>toString\<close>, ...), the score is the neutral default with the constraint
  adjustment added, clamped to \<open>[0, 1]\<close>.
\<close>

theorem computePersonalizationScore_neutral_default:
  "(profileWeights profile = None \<longrightarrow> computePersonalizationScore r profile cs = Num 0.5)
   \<and> (profileWeights profile = None \<longleftrightarrow>
        profile \<notin> {''student'', ''shopper'', ''researcher'', ''casual''}
        \<and> profile \<notin> set objectPrototypeNames)
   \<and> (profileWeights other = Some ws \<and> snd (weightLoop (metrics r) ws (0, 0)) = 0 \<longrightarrow>
        computePersonalizationScore r other cs
          = mathMax (Num 0) (mathMin (Num 1)
              (jsAdd (Num 0.5) (applyConstraintAdjustments r cs))))
   \<and> (inherited \<in> set objectPrototypeNames \<longrightarrow>
        profileWeights inherited = Some []
        \<and> computePersonalizationScore r inherited cs
            = mathMax (Num 0) (mathMin (Num 1)
                (jsAdd (Num 0.5) (applyConstraintAdjustments r cs))))"
proof -
  have a: "computePersonalizationScore r profile cs = Num 0.5" if "profileWeights profile = None"
    using that by (simp add: computePersonalizationScore_def computePersonalizationScoreBy_def)
  have b: "computePersonalizationScore r inherited cs
             = mathMax (Num 0) (mathMin (Num 1)
                 (jsAdd (Num 0.5) (applyConstraintAdjustments r cs)))"
    if "inherited \<in> set objectPrototypeNames"
    by (rule computePersonalizationScore_zero_total [OF profileWeights_inherited [OF that]]) simp
  from a b computePersonalizationScore_zero_total [of other ws r cs]
    profileWeights_inherited [of inherited] profileWeights_None_iff [of profile]
  show ?thesis by blast
qed

text \<open>For the unknown profile \<open>guest\<close> and an active budget constraint the score is 0.5,
  whereas the clamped sum of 0.5 and the adjustment is 0.36.\<close>

theorem computePersonalizationScore_unknown_profile_counterexample:
  "computePersonalizationScore defaultResult ''guest'' budgetOnly = Num 0.5
   \<and> mathMax (Num 0) (mathMin (Num 1)
        (jsAdd (Num 0.5) (applyConstraintAdjustments defaultResult budgetOnly))) = Num 0.36"
  by (simp add: computePersonalizationScore_def computePersonalizationScoreBy_def
        profileWeights_def objectPrototypeNames_def applyConstraintAdjustments_def
        budgetOnly_def defaultResult_def)

theorem computePersonalizationScore_neutral_default_witness:
  "profileWeights ''guest'' = None
   \<and> computePersonalizationScore defaultResult ''guest'' budgetOnly = Num 0.5
   \<and> ''constructor'' \<in> set objectPrototypeNames
   \<and> profileWeights ''constructor'' = Some []
   \<and> snd (weightLoop (metrics defaultResult) [] (0, 0)) = 0
   \<and> computePersonalizationScore defaultResult ''constructor'' budgetOnly = Num 0.36"
proof -
  have a: "profileWeights ''guest'' = None"
    by (simp add: profileWeights_def objectPrototypeNames_def)
  have b: "''constructor'' \<in> set objectPrototypeNames"
    by (simp add: objectPrototypeNames_def)
  have c: "applyConstraintAdjustments defaultResult budgetOnly = Num (- 0.14)"
    by (simp add: applyConstraintAdjustments_def budgetOnly_def defaultResult_def)
  from computePersonalizationScore_neutral_default
         [of "''guest''" defaultResult budgetOnly "''constructor''" "[]" "''constructor''"]
       a b c
  show ?thesis by simp
qed

section \<open>Result counts\<close>

lemma rankAndDisplayResults_Displayed:
  assumes "rankAndDisplayResults sc = Inr d"
  shows "(filterByQueryIntent (scResults sc) (scQuery sc) = [] \<and> d = EmptyState)
       \<or> (\<exists>shown. d = Displayed shown
             \<and> length shown = min 3 (length (filterByQueryIntent (scResults sc) (scQuery sc))))"
proof (cases "filterByQueryIntent (scResults sc) (scQuery sc) = []")
  case True
  with assms show ?thesis by (simp add: rankAndDisplayResults_def)
next
  case False
  let ?rs = "filterByQueryIntent (scResults sc) (scQuery sc)"
  obtain scored where
    m: "mapThrowing (scoreOneBy applyConstraintAdjustmentsUI (scProfile sc) (scConstraints sc)
          (extractKeywords (scQuery sc))) ?rs = Inr scored"
    using False assms
    by (cases "mapThrowing (scoreOneBy applyConstraintAdjustmentsUI (scProfile sc)
                 (scConstraints sc) (extractKeywords (scQuery sc))) ?rs")
       (auto simp: rankAndDisplayResults_def Let_def)
  from mapThrowing_Inr [OF m] have l: "length scored = length ?rs"
    by (simp add: list_all2_lengthD)
  with False have n: "arraySort byScore scored \<noteq> []"
    using length_arraySort [of byScore scored] by auto
  from False m n assms have "d = displayResults (take 3 (arraySort byScore scored))"
    by (simp add: rankAndDisplayResults_def Let_def)
  with l show ?thesis
    by (simp add: displayResults_def length_arraySort min_def)
qed

lemma rankAndDisplayResults_known:
  assumes "profileWeights (scProfile sc) = Some ws"
  shows "\<exists>d. rankAndDisplayResults sc = Inr d"
proof -
  have "\<exists>scored. mapThrowing (scoreOneBy applyConstraintAdjustmentsUI (scProfile sc)
           (scConstraints sc) (extractKeywords (scQuery sc)))
           (filterByQueryIntent (scResults sc) (scQuery sc)) = Inr scored"
    by (rule mapThrowing_total) (rule scoreOneBy_known [OF assms])
  then show ?thesis
    by (auto simp: rankAndDisplayResults_def Let_def)
qed

text \<open>
  Claim C1, amended. The server module's \<open>rankResults\<close> does not truncate: whenever it returns,
  its list has exactly one result per candidate that survived the intent filter (six for
  six survivors), and it returns for every known profile. The truncation to three is made by
  the browser pipeline \<open>rankAndDisplayResults\<close>: the list it displays has the length of the
  survivors capped at three (exactly three for six survivors), and it too returns for every
  known profile.
\<close>

theorem rankResults_length:
  "(rankResults request = Inr out \<longrightarrow>
      length out = length (filterByQueryIntent (reqResults request) (reqQuery request)))
   \<and> (profileOf request \<in> {''student'', ''shopper'', ''researcher'', ''casual''} \<longrightarrow>
        (\<exists>ranked. rankResults request = Inr ranked))
   \<and> (rankAndDisplayResults sc = Inr (Displayed shown) \<longrightarrow>
        length shown = min 3 (length (filterByQueryIntent (scResults sc) (scQuery sc))))
   \<and> (scProfile sc \<in> {''student'', ''shopper'', ''researcher'', ''casual''} \<longrightarrow>
        (\<exists>d. rankAndDisplayResults sc = Inr d))"
  using rankResults_survivor_count [of request out]
    rankResults_known [of request] profileWeights_known [of "profileOf request"]
    rankAndDisplayResults_Displayed [of sc "Displayed shown"]
    rankAndDisplayResults_known [of sc] profileWeights_known [of "scProfile sc"]
  by blast

lemma six_survive:
  "length (filterByQueryIntent (reqResults sixRequest) (reqQuery sixRequest)) = 6"
  by code_simp

text \<open>Six candidates survive the filter of \<open>sixRequest\<close>, and \<open>rankResults\<close> returns six
  results, more than three.\<close>

theorem rankResults_six_counterexample:
  "length (filterByQueryIntent (reqResults sixRequest) (reqQuery sixRequest)) = 6
   \<and> map_sum id length (rankResults sixRequest) = Inr 6"
  by code_simp

lemma six_survive_ui:
  "length (filterByQueryIntent (scResults sixSearch) (scQuery sixSearch)) = 6"
  by code_simp

theorem rankResults_length_witness:
  "profileOf sixRequest \<in> {''student'', ''shopper'', ''researcher'', ''casual''}
   \<and> length (filterByQueryIntent (reqResults sixRequest) (reqQuery sixRequest)) = 6
   \<and> map_sum id length (rankResults sixRequest) = Inr 6
   \<and> scProfile sixSearch \<in> {''student'', ''shopper'', ''researcher'', ''casual''}
   \<and> map_sum id (case_display 0 length) (rankAndDisplayResults sixSearch) = Inr 3"
proof -
  have p: "profileOf sixRequest \<in> {''student'', ''shopper'', ''researcher'', ''casual''}"
    by (simp add: sixRequest_def profileOf_def)
  have q: "scProfile sixSearch \<in> {''student'', ''shopper'', ''researcher'', ''casual''}"
    by (simp add: sixSearch_def)
  from rankResults_length [of sixRequest "[]" sixSearch "[]"] p q obtain ranked d
    where r: "rankResults sixRequest = Inr ranked"
      and d: "rankAndDisplayResults sixSearch = Inr d"
    by blast
  from rankResults_length [of sixRequest ranked sixSearch "[]"] r
  have lr: "length ranked = 6"
    by (simp add: six_survive)
  from rankAndDisplayResults_Displayed [OF d] six_survive_ui obtain shown
    where s: "d = Displayed shown"
    by auto
  from rankResults_length [of sixRequest ranked sixSearch shown] d s
  have "length shown = 3"
    by (simp add: six_survive_ui)
  with p q r lr d s show ?thesis
    by (simp add: six_survive)
qed

section \<open>Constraint adjustment: properties\<close>

lemma clamp_range:
  "mathMax (Num lo) (mathMin (Num hi) X) = Num a \<Longrightarrow> lo \<le> hi \<Longrightarrow> lo \<le> a \<and> a \<le> hi"
  by (cases X) auto

lemma applyConstraintAdjustments_range:
  assumes "applyConstraintAdjustments r cs = Num a"
  shows "- 0.25 \<le> a \<and> a \<le> 0.15"
  using assms unfolding applyConstraintAdjustments_def Let_def
  by (rule clamp_range) simp

lemma jsAdd_NaN_iff: "jsAdd a b = NaN \<longleftrightarrow> a = NaN \<or> b = NaN"
  by (cases a; cases b) simp_all

lemma jsSub_NaN_iff: "jsSub a b = NaN \<longleftrightarrow> a = NaN \<or> b = NaN"
  by (cases a; cases b) simp_all

lemma jsMul_NaN_iff: "jsMul a b = NaN \<longleftrightarrow> a = NaN \<or> b = NaN"
  by (cases a; cases b) simp_all

lemma mathMax_NaN_iff: "mathMax a b = NaN \<longleftrightarrow> a = NaN \<or> b = NaN"
  by (cases a; cases b) simp_all

lemma mathMin_NaN_iff: "mathMin a b = NaN \<longleftrightarrow> a = NaN \<or> b = NaN"
  by (cases a; cases b) simp_all

lemma toNumber_NaN_iff: "toNumber v = NaN \<longleftrightarrow> v = None"
  by (cases v) simp_all

lemmas NaN_iffs = jsAdd_NaN_iff jsSub_NaN_iff jsMul_NaN_iff mathMax_NaN_iff mathMin_NaN_iff
  toNumber_NaN_iff

lemma not_NaN_conv: "x \<noteq> NaN \<longleftrightarrow> (\<exists>a. x = Num a)"
  by (cases x) simp_all

lemma applyConstraintAdjustments_numeric:
  assumes "simplicity r \<noteq> None" and "depth r \<noteq> None" and "citations r \<noteq> None"
  shows "applyConstraintAdjustments r cs \<noteq> NaN"
  using assms
  by (simp add: applyConstraintAdjustments_def Let_def NaN_iffs split: option.splits)

lemma applyConstraintAdjustments_unconstrained_numeric:
  assumes "readingTimeLimit cs = None \<or> readingTimeLimit cs = Some 0" and "skillLevel cs = None"
  shows "applyConstraintAdjustments r cs \<noteq> NaN"
  using assms by (auto simp: applyConstraintAdjustments_def Let_def NaN_iffs)

text \<open>
  Claim C3 says that the adjustment lies in \<open>[-0.25, 0.15]\<close> for every candidate and every
  constraints object. By \<open>applyConstraintAdjustments_range\<close> and
  \<open>applyConstraintAdjustments_numeric\<close> it does for every candidate that has its
  \<open>simplicity\<close>, \<open>depth\<close> and \<open>citations\<close> fields. The adjuster defaults \<open>price\<close> and
  \<open>readingTime\<close> but multiplies the other three metrics as they are, so for a candidate
  without \<open>simplicity\<close> under a reading-time ceiling the sum is \<open>NaN\<close>, which the clamp
  returns unchanged.
\<close>

theorem applyConstraintAdjustments_missing_simplicity:
  "applyConstraintAdjustments noSimplicity thirtyMinutes = NaN"
  by (simp add: applyConstraintAdjustments_def noSimplicity_def thirtyMinutes_def defaultResult_def)

section \<open>Score ranges\<close>

lemma computeRelevanceScore_range:
  "0 \<le> computeRelevanceScore r kws \<and> computeRelevanceScore r kws \<le> 1"
  by (simp add: computeRelevanceScore_def Let_def split: prod.splits)

lemma computePersonalizationScoreBy_range:
  assumes "computePersonalizationScoreBy adjust r profile cs = Num p"
  shows "0 \<le> p \<and> p \<le> 1"
proof (cases "profileWeights profile")
  case None
  with assms show ?thesis by (simp add: computePersonalizationScoreBy_def)
next
  case (Some ws)
  with assms have "computePersonalizationScoreW adjust ws r cs = Num p"
    by (simp add: computePersonalizationScoreBy_def)
  then show ?thesis
    unfolding computePersonalizationScoreW_def Let_def
    by (simp split: prod.splits) (erule clamp_range, simp)
qed

lemma finalScore_range:
  assumes "0 \<le> rel" "rel \<le> 1" "0 \<le> p" "p \<le> 1"
  shows "\<exists>f. finalScore rel (Num p) = Num f \<and> 0 \<le> f \<and> f \<le> 1"
  using assms by (simp add: finalScore_def)

lemma finalScore_NaN: "finalScore rel NaN = NaN"
  by (simp add: finalScore_def)

lemma computePersonalizationScore_range:
  assumes "computePersonalizationScore r profile cs = Num p"
  shows "0 \<le> p \<and> p \<le> 1"
  using assms computePersonalizationScoreBy_range
  by (simp add: computePersonalizationScore_def)

lemma rankResults_score_range:
  assumes "rankResults request = Inr out" and "x \<in> set out" and "score x = Num f"
  shows "0 \<le> f \<and> f \<le> 1"
proof -
  let ?rel = "computeRelevanceScore (item x) (extractKeywords (reqQuery request))"
  let ?pers = "computePersonalizationScore (item x) (profileOf request) (constraintsOf request)"
  from rankResults_elem(2) [OF assms(1,2)] assms(3) have f: "finalScore ?rel ?pers = Num f"
    by simp
  then obtain p where p: "?pers = Num p"
    by (cases ?pers) (simp_all add: finalScore_def)
  from computePersonalizationScore_range [OF p] computeRelevanceScore_range [of "item x"]
    finalScore_range [of ?rel p] f p
  show ?thesis by auto
qed

text \<open>
  Claim C5 says that the relevance, personalization and final scores all lie in \<open>[0, 1]\<close>
  for every candidate. The relevance score always does, and the other two do whenever the
  personalization score is a number (\<open>rankResults_score_range\<close>). For the candidate without
  \<open>simplicity\<close> under a reading-time ceiling the \<open>NaN\<close> adjustment passes through the clamp
  of the personalization score and into the final score the pipeline attaches.
\<close>

theorem scores_missing_simplicity:
  "computeRelevanceScore noSimplicity (extractKeywords ''machine learning'') = 129 / 200
   \<and> computePersonalizationScore noSimplicity ''casual'' thirtyMinutes = NaN
   \<and> finalScore (129 / 200) NaN = NaN
   \<and> map_sum id (map score) (rankResults noSimplicityRequest) = Inr [NaN]"
  by code_simp

section \<open>Ordering of the ranked list\<close>

lemma byScore_positive:
  assumes "score x \<noteq> NaN" and "score y \<noteq> NaN"
  shows "jsGt (byScore x y) (Num 0) \<longleftrightarrow> numberOf (score x) < numberOf (score y)"
  using assms by (auto simp: byScore_def not_NaN_conv)

lemma jsGe_numberOf:
  assumes "a \<noteq> NaN" and "b \<noteq> NaN"
  shows "jsGe a b \<longleftrightarrow> numberOf b \<le> numberOf a"
  using assms by (auto simp: not_NaN_conv)

lemma insertSorted_descending:
  assumes "score x \<noteq> NaN" and "\<forall>y\<in>set ys. score y \<noteq> NaN" and "descending ys"
  shows "descending (insertSorted byScore x ys)"
  using assms
proof (induction ys)
  case Nil
  show ?case by (simp add: descending_def)
next
  case (Cons y ys)
  then have ih: "descending (insertSorted byScore x ys)"
    by (simp add: descending_def)
  show ?case
  proof (cases "jsGt (byScore x y) (Num 0)")
    case True
    then have "numberOf (score x) < numberOf (score y)"
      using Cons.prems by (simp add: byScore_positive)
    with True ih Cons.prems show ?thesis
      by (auto simp: descending_def set_insertSorted jsGe_numberOf)
  next
    case False
    then have "numberOf (score y) \<le> numberOf (score x)"
      using Cons.prems by (simp add: byScore_positive)
    with False Cons.prems show ?thesis
      by (auto simp: descending_def jsGe_numberOf)
  qed
qed

lemma arraySort_descending:
  assumes "\<forall>x\<in>set xs. score x \<noteq> NaN"
  shows "descending (arraySort byScore xs)"
  using assms
proof (induction xs)
  case Nil
  show ?case by (simp add: arraySort_def descending_def)
next
  case (Cons x xs)
  then have "descending (arraySort byScore xs)" by simp
  moreover have "\<forall>y\<in>set (arraySort byScore xs). score y \<noteq> NaN"
    using Cons.prems by (simp add: set_arraySort)
  ultimately have "descending (insertSorted byScore x (arraySort byScore xs))"
    using Cons.prems by (intro insertSorted_descending) simp_all
  then show ?case by (simp add: arraySort_def)
qed

lemma insertSorted_stable:
  assumes "score x \<noteq> NaN" and "\<forall>y\<in>set ys. score y \<noteq> NaN"
  shows "filter (\<lambda>a. score a = s) (insertSorted byScore x ys)
           = filter (\<lambda>a. score a = s) (x # ys)"
  using assms
proof (induction ys)
  case Nil
  show ?case by simp
next
  case (Cons y ys)
  show ?case
  proof (cases "jsGt (byScore x y) (Num 0)")
    case True
    then have "numberOf (score x) < numberOf (score y)"
      using Cons.prems by (simp add: byScore_positive)
    then have "score x \<noteq> score y" by auto
    with True Cons show ?thesis by auto
  next
    case False
    then show ?thesis by simp
  qed
qed

lemma arraySort_stable:
  assumes "\<forall>x\<in>set xs. score x \<noteq> NaN"
  shows "filter (\<lambda>a. score a = s) (arraySort byScore xs) = filter (\<lambda>a. score a = s) xs"
  using assms
proof (induction xs)
  case Nil
  show ?case by (simp add: arraySort_def)
next
  case (Cons x xs)
  have "filter (\<lambda>a. score a = s) (insertSorted byScore x (arraySort byScore xs))
          = filter (\<lambda>a. score a = s) (x # arraySort byScore xs)"
    using Cons.prems by (intro insertSorted_stable) (simp_all add: set_arraySort)
  with Cons show ?case by (simp add: arraySort_def)
qed

text \<open>Three results with the final scores 0.9, 0.4 and 0.7, in this order, are returned in
  the order 0.9, 0.7, 0.4.\<close>

lemma arraySort_three:
  assumes "score a = Num 0.9" and "score b = Num 0.4" and "score c = Num 0.7"
  shows "arraySort byScore [a, b, c] = [a, c, b]"
  using assms by (simp add: arraySort_def byScore_def)

text \<open>
  When every final score is a number, the list \<open>rankResults\<close> returns is a rearrangement of
  the scored survivors in descending order of score, and results of equal score keep the
  order they had in the filtered input.
\<close>

lemma rankResults_sorted_stable:
  assumes "rankResults request = Inr out" and "\<forall>x\<in>set out. score x \<noteq> NaN"
  shows "descending out
       \<and> (\<exists>scored. scoredResults (profileOf request) (constraintsOf request) (reqQuery request)
                      (filterByQueryIntent (reqResults request) (reqQuery request)) = Inr scored
             \<and> map item scored = filterByQueryIntent (reqResults request) (reqQuery request)
             \<and> mset out = mset scored
             \<and> (\<forall>s. filter (\<lambda>a. score a = s) out = filter (\<lambda>a. score a = s) scored))"
proof -
  from rankResults_Inr [OF assms(1)] obtain scored where
    s: "scoredResults (profileOf request) (constraintsOf request) (reqQuery request)
          (filterByQueryIntent (reqResults request) (reqQuery request)) = Inr scored"
    and o: "out = arraySort byScore scored" by blast
  from o assms(2) have n: "\<forall>x\<in>set scored. score x \<noteq> NaN"
    by (simp add: set_arraySort)
  from scoredResults_Inr [OF s]
  have "map item scored = filterByQueryIntent (reqResults request) (reqQuery request)"
    by (induction rule: list_all2_induct) simp_all
  with s o n arraySort_descending [OF n] arraySort_stable [OF n] show ?thesis
    by (auto simp: mset_arraySort)
qed

text \<open>
  Claim C6 says that the returned list is in descending order of final score. A \<open>NaN\<close>
  score makes the comparison function return \<open>NaN\<close>, which the sort reads as equal: in
  \<open>mixedRequest\<close> the candidate without \<open>simplicity\<close> keeps the second place and the first
  candidate, whose score is the lower one, stays in front of the third.
\<close>

theorem rankResults_order_missing_simplicity:
  "map_sum id (map (title \<circ> item)) (rankResults mixedRequest)
     = Inr [''Less relevant'', ''No simplicity'', ''Comprehensive Guide to Machine Learning'']
   \<and> map_sum id (map score) (rankResults mixedRequest)
       = Inr [Num (376993 / 880000), NaN, Num (543313 / 880000)]
   \<and> map_sum id descending (rankResults mixedRequest) = Inr False"
  by code_simp

end
